theory Spec2Isabelle
  imports Complex_Main "HOL-Library.Word"
begin

section \<open>JavaScript strings\<close>

text \<open>
  A JavaScript string is a sequence of UTF-16 code units, and \<open>length\<close> counts code
  units.  The literals of the source are ASCII and are written with \<open>js\<close>.
\<close>

type_synonym jsstring = "16 word list"

definition js :: "string \<Rightarrow> jsstring" where
  "js s = map of_char s"

text \<open>
  The code units that \<open>String.prototype.trim\<close> strips: the WhiteSpace and
  LineTerminator productions of ECMAScript (TAB, LF, VT, FF, CR, SP, NBSP, the Unicode
  space separators, LS, PS and the byte order mark).
\<close>

definition isWhiteSpace :: "16 word \<Rightarrow> bool" where
  "isWhiteSpace c \<longleftrightarrow>
     c \<in> set [0x0009, 0x000A, 0x000B, 0x000C, 0x000D, 0x0020, 0x00A0, 0x1680,
              0x2028, 0x2029, 0x202F, 0x205F, 0x3000, 0xFEFF]
     \<or> (0x2000 \<le> c \<and> c \<le> 0x200A)"

definition trim :: "jsstring \<Rightarrow> jsstring" where
  "trim s = rev (dropWhile isWhiteSpace (rev (dropWhile isWhiteSpace s)))"

fun startsWith :: "jsstring \<Rightarrow> jsstring \<Rightarrow> bool" where
  "startsWith s [] = True"
| "startsWith [] (p # ps) = False"
| "startsWith (c # cs) (p # ps) = (c = p \<and> startsWith cs ps)"

text \<open>\<open>s.includes(p)\<close>: \<open>p\<close> occurs in \<open>s\<close> as a contiguous run.\<close>

fun includes_str :: "jsstring \<Rightarrow> jsstring \<Rightarrow> bool" where
  "includes_str [] p = (p = [])"
| "includes_str (c # cs) p = (startsWith (c # cs) p \<or> includes_str cs p)"

text \<open>The decimal digits of a non-negative integer, as a template literal prints it.\<close>

fun toString_nat :: "nat \<Rightarrow> jsstring" where
  "toString_nat n =
     (if n < 10 then [of_nat (48 + n)]
      else toString_nat (n div 10) @ [of_nat (48 + n mod 10)])"

declare toString_nat.simps [simp del]

text \<open>\<open>a || b\<close> on an optional string: absent and empty strings are falsy.\<close>

definition orElse :: "jsstring option \<Rightarrow> jsstring \<Rightarrow> jsstring" where
  "orElse a b = (case a of None \<Rightarrow> b | Some s \<Rightarrow> if s = [] then b else s)"


section \<open>Response types (types/index.ts)\<close>

record KeywordAnalysis =
  score :: int
  missingKeywords :: "jsstring list"
  presentKeywords :: "jsstring list"

record AnalysisResult =
  isPerfect :: bool
  overallScore :: int
  summary :: jsstring
  suggestions :: "jsstring list"
  unnecessaryItems :: "jsstring list"
  strengths :: "jsstring list"
  formattingFeedback :: "jsstring list"
  keywordAnalysis :: KeywordAnalysis

datatype question_category = technical | behavioral | experience

datatype question_difficulty = easy | medium | hard

record InterviewQuestion =
  question :: jsstring
  category :: question_category
  difficulty :: question_difficulty

record QuestionsResult =
  questions :: "InterviewQuestion list"


section \<open>The API client (services/apiClient.ts)\<close>

subsection \<open>Thrown values\<close>

text \<open>
  The four error classes of the client, each a direct subclass of \<open>Error\<close>, any other
  \<open>Error\<close> (with its name and message) and a thrown value that is no \<open>Error\<close>.
  \<open>ApiError\<close> carries message, code, statusCode and isRetryable; the other three
  classes of the client have \<open>isRetryable = true\<close> as a field initialiser.
\<close>

datatype thrown =
    ApiError jsstring "jsstring option" "nat option" bool
  | NetworkError jsstring
  | TimeoutError jsstring
  | RateLimitError jsstring
  | OtherError jsstring jsstring
  | NonError

fun instanceofError :: "thrown \<Rightarrow> bool" where
  "instanceofError NonError = False"
| "instanceofError _ = True"

fun error_name :: "thrown \<Rightarrow> jsstring" where
  "error_name (ApiError m c st r) = js ''ApiError''"
| "error_name (NetworkError m) = js ''NetworkError''"
| "error_name (TimeoutError m) = js ''TimeoutError''"
| "error_name (RateLimitError m) = js ''RateLimitError''"
| "error_name (OtherError n m) = n"
| "error_name NonError = []"

fun error_message :: "thrown \<Rightarrow> jsstring" where
  "error_message (ApiError m c st r) = m"
| "error_message (NetworkError m) = m"
| "error_message (TimeoutError m) = m"
| "error_message (RateLimitError m) = m"
| "error_message (OtherError n m) = m"
| "error_message NonError = []"

fun error_isRetryable :: "thrown \<Rightarrow> bool" where
  "error_isRetryable (ApiError m c st r) = r"
| "error_isRetryable (NetworkError m) = True"
| "error_isRetryable (TimeoutError m) = True"
| "error_isRetryable (RateLimitError m) = True"
| "error_isRetryable (OtherError n m) = False"
| "error_isRetryable NonError = False"

definition NetworkError_default :: jsstring where
  "NetworkError_default = js ''Network error. Please check your internet connection.''"

definition TimeoutError_default :: jsstring where
  "TimeoutError_default = js ''Request timed out. Please try again.''"

subsection \<open>Requests and responses\<close>

text \<open>
  \<open>ApiResponse<T>\<close> is the JSON envelope.  A \<open>Response\<close> has its HTTP status and a
  body.  Reading the body with \<open>response.json()\<close> either rejects with some thrown value
  (the body is not JSON) or resolves to the parsed value, which is \<open>null\<close>, an object, or
  a value with none of the envelope's properties (a boolean, a number, a string or an
  array).  An object is read through the interface: \<open>success\<close> is the truthiness of the
  property, \<open>data\<close> is absent when the property is absent or falsy, \<open>error\<close> and \<open>code\<close>
  are strings when present.
  \<open>response.ok\<close> is the getter of the Fetch API, true exactly for a status in
  200..299.
\<close>

record 'a ApiResponse =
  success :: bool
  data :: "'a option"
  error :: "jsstring option"
  code :: "jsstring option"

datatype 'a json_result = JsonRejects thrown | JsonNull | JsonOther | Json 'a

record 'a Response =
  status :: nat
  json :: "'a json_result"

definition ok :: "'a Response \<Rightarrow> bool" where
  "ok response \<longleftrightarrow> 200 \<le> status response \<and> status response \<le> 299"

text \<open>
  What the property reads \<open>data.success\<close>, \<open>data.data\<close>, \<open>data.error\<close> and \<open>data.code\<close> see
  in a parsed body other than \<open>null\<close>: the fields of an object, and nothing in a boolean,
  a number, a string or an array.
\<close>

fun envelope :: "'a ApiResponse json_result \<Rightarrow> 'a ApiResponse" where
  "envelope (Json d) = d"
| "envelope other = \<lparr>success = False, data = None, error = None, code = None\<rparr>"


datatype request_body =
    AnalysisRequest jsstring
  | QuestionsRequest jsstring "(jsstring \<times> jsstring list) option"

record fetch_request =
  endpoint :: string
  http_method :: string
  body :: "request_body option"
  timeout :: nat

text \<open>What \<open>fetch\<close> does with a request: it resolves to a response or rejects.\<close>

datatype 'a fetch_outcome = Resolves "'a Response" | Rejects thrown

definition REQUEST_TIMEOUT :: nat where
  "REQUEST_TIMEOUT = 30000"

subsection \<open>fetchWithTimeout\<close>

text \<open>
  The timer aborts the request through the controller, which makes \<open>fetch\<close> reject with
  an error named \<open>AbortError\<close>; the catch block turns that into a \<open>TimeoutError\<close>, a
  message mentioning \<open>fetch\<close> or \<open>network\<close> into a \<open>NetworkError\<close>, and rethrows
  anything else.
\<close>

definition fetchWithTimeout :: "'a fetch_outcome \<Rightarrow> thrown + 'a Response" where
  "fetchWithTimeout outcome =
     (case outcome of
        Resolves response \<Rightarrow> Inr response
      | Rejects e \<Rightarrow>
          if instanceofError e \<and> error_name e = js ''AbortError''
            then Inl (TimeoutError TimeoutError_default)
          else if instanceofError e \<and>
                  (includes_str (error_message e) (js ''fetch'') \<or>
                   includes_str (error_message e) (js ''network''))
            then Inl (NetworkError NetworkError_default)
          else Inl e)"

subsection \<open>getUserFriendlyMessage and isRetryableError\<close>

definition errorMessages :: "(jsstring \<times> jsstring) list" where
  "errorMessages =
    [(js ''AI_SERVICE_UNAVAILABLE'',
        js ''AI service is currently unavailable. Please try again later.''),
     (js ''MISSING_RESUME_TEXT'',
        js ''Resume text is missing. Please upload a valid resume.''),
     (js ''EMPTY_RESUME_TEXT'',
        js ''Resume text is empty. Please upload a resume with content.''),
     (js ''RESUME_TOO_SHORT'',
        js ''Resume is too short. Please upload a complete resume.''),
     (js ''INVALID_CONTENT_TYPE'', js ''Invalid request format. Please try again.''),
     (js ''API_KEY_ERROR'', js ''Service configuration error. Please contact support.''),
     (js ''RATE_LIMIT_EXCEEDED'',
        js ''Too many requests. Please wait a moment and try again.''),
     (js ''REQUEST_TIMEOUT'',
        js ''Request timed out. Please check your connection and try again.''),
     (js ''CONNECTION_FAILED'',
        js ''Connection failed. Please check your internet connection.''),
     (js ''ANALYSIS_FAILED'', js ''Analysis failed. Please try again.''),
     (js ''QUESTION_GENERATION_FAILED'',
        js ''Failed to generate questions. Please try again.''),
     (js ''INTERNAL_ERROR'', js ''An unexpected error occurred. Please try again.''),
     (js ''FILE_TOO_LARGE'', js ''File is too large. Maximum size is 10MB.''),
     (js ''BAD_REQUEST'', js ''Invalid request. Please check your input.''),
     (js ''NOT_FOUND'', js ''Requested resource not found.''),
     (js ''METHOD_NOT_ALLOWED'', js ''Invalid request method.''),
     (js ''INTERNAL_SERVER_ERROR'', js ''Server error. Please try again later.'')]"

text \<open>
  \<open>errorMessages[code]\<close> also finds the properties that the object literal inherits from
  \<open>Object.prototype\<close>.  Their values are functions (and the prototype itself for
  \<open>__proto__\<close>), all truthy, which the constructor of the error turns into a string; the
  strings are given as V8 prints them.
\<close>

definition nativeFunction :: "string \<Rightarrow> jsstring" where
  "nativeFunction name = js (''function '' @ name @ ''() { [native code] }'')"

definition inheritedProperties :: "(jsstring \<times> jsstring) list" where
  "inheritedProperties =
    [(js ''constructor'', nativeFunction ''Object''),
     (js ''__defineGetter__'', nativeFunction ''__defineGetter__''),
     (js ''__defineSetter__'', nativeFunction ''__defineSetter__''),
     (js ''hasOwnProperty'', nativeFunction ''hasOwnProperty''),
     (js ''__lookupGetter__'', nativeFunction ''__lookupGetter__''),
     (js ''__lookupSetter__'', nativeFunction ''__lookupSetter__''),
     (js ''isPrototypeOf'', nativeFunction ''isPrototypeOf''),
     (js ''propertyIsEnumerable'', nativeFunction ''propertyIsEnumerable''),
     (js ''toString'', nativeFunction ''toString''),
     (js ''valueOf'', nativeFunction ''valueOf''),
     (js ''__proto__'', js ''[object Object]''),
     (js ''toLocaleString'', nativeFunction ''toLocaleString'')]"

definition getUserFriendlyMessage :: "jsstring \<Rightarrow> jsstring \<Rightarrow> jsstring" where
  "getUserFriendlyMessage c defaultMessage =
     orElse (map_of (errorMessages @ inheritedProperties) c) defaultMessage"

definition retryableStatusCodes :: "nat list" where
  "retryableStatusCodes = [408, 429, 500, 502, 503, 504]"

definition retryableErrorCodes :: "jsstring list" where
  "retryableErrorCodes =
     [js ''RATE_LIMIT_EXCEEDED'', js ''REQUEST_TIMEOUT'', js ''CONNECTION_FAILED'',
      js ''INTERNAL_ERROR'', js ''INTERNAL_SERVER_ERROR'']"

definition isRetryableError :: "nat \<Rightarrow> jsstring option \<Rightarrow> bool" where
  "isRetryableError statusCode errorCode \<longleftrightarrow>
     statusCode \<in> set retryableStatusCodes \<or>
     (case errorCode of
        None \<Rightarrow> False
      | Some c \<Rightarrow> if c \<noteq> [] then c \<in> set retryableErrorCodes else False)"

subsection \<open>handleResponse\<close>

text \<open>
  When the body is \<open>null\<close>, the first property read of \<open>data\<close> throws a \<open>TypeError\<close>:
  \<open>data.success\<close> when the response is ok, \<open>data.code\<close> when it is not (\<open>!response.ok\<close>
  decides the condition before \<open>data.success\<close> is read).  The message is V8's.
\<close>

definition handleResponse :: "'a ApiResponse Response \<Rightarrow> thrown + 'a" where
  "handleResponse response =
     (case json response of
        JsonRejects e \<Rightarrow>
          Inl (ApiError (js ''Invalid response from server'') (Some (js ''INVALID_RESPONSE''))
                 (Some (status response)) False)
      | JsonNull \<Rightarrow>
          Inl (OtherError (js ''TypeError'')
                 (if ok response
                  then js (''Cannot read properties of null (reading '' @ [CHR 0x27] @
                           ''success'' @ [CHR 0x27] @ '')'')
                  else js (''Cannot read properties of null (reading '' @ [CHR 0x27] @
                           ''code'' @ [CHR 0x27] @ '')'')))
      | parsed \<Rightarrow>
         (let d = envelope parsed in
          if \<not> ok response \<or> \<not> success d then
            (let errorCode = orElse (code d) (js ''UNKNOWN_ERROR'');
                 defaultMessage =
                   js ''Request failed with status '' @ toString_nat (status response);
                 errorMessage = orElse (error d) defaultMessage;
                 userFriendlyMessage = getUserFriendlyMessage errorCode errorMessage;
                 retryable = isRetryableError (status response) (Some errorCode)
             in if status response = 429 \<or> errorCode = js ''RATE_LIMIT_EXCEEDED''
                  then Inl (RateLimitError userFriendlyMessage)
                else Inl (ApiError userFriendlyMessage (Some errorCode)
                            (Some (status response)) retryable))
          else
            (case data d of
               None \<Rightarrow>
                 Inl (ApiError (js ''No data in response'') (Some (js ''NO_DATA''))
                        (Some (status response)) False)
             | Some x \<Rightarrow> Inr x)))"

subsection \<open>The three operations\<close>

text \<open>
  The catch block of \<open>analyzeResume\<close> and \<open>generateQuestions\<close>: the four classes of the
  client are rethrown, anything else is wrapped in an \<open>ApiError\<close> with code
  \<open>UNKNOWN_ERROR\<close>, no status and the default \<open>isRetryable = false\<close>.
\<close>

fun rethrowKnown :: "jsstring \<Rightarrow> thrown \<Rightarrow> thrown" where
  "rethrowKnown fallback (ApiError m c st r) = ApiError m c st r"
| "rethrowKnown fallback (NetworkError m) = NetworkError m"
| "rethrowKnown fallback (TimeoutError m) = TimeoutError m"
| "rethrowKnown fallback (RateLimitError m) = RateLimitError m"
| "rethrowKnown fallback (OtherError n m) =
     ApiError m (Some (js ''UNKNOWN_ERROR'')) None False"
| "rethrowKnown fallback NonError =
     ApiError fallback (Some (js ''UNKNOWN_ERROR'')) None False"

text \<open>The thrown values that are instances of one of the four classes of the client.\<close>

fun clientError :: "thrown \<Rightarrow> bool" where
  "clientError (OtherError n m) = False"
| "clientError NonError = False"
| "clientError _ = True"

text \<open>
  Each operation returns the requests it handed to \<open>fetch\<close> (none when the argument
  check throws first) together with what the promise settles to.
\<close>

definition apiClient_analyzeResume ::
  "(fetch_request \<Rightarrow> AnalysisResult ApiResponse fetch_outcome) \<Rightarrow> jsstring \<Rightarrow>
     fetch_request list \<times> (thrown + AnalysisResult)" where
  "apiClient_analyzeResume fetch resumeText =
     (if resumeText = [] \<or> length (trim resumeText) = 0 then
        ([], Inl (ApiError (js ''Resume text cannot be empty'')
                    (Some (js ''EMPTY_RESUME_TEXT'')) (Some 400) False))
      else
        (let request = \<lparr>endpoint = ''/api/analyze'', http_method = ''POST'',
                         body = Some (AnalysisRequest resumeText),
                         timeout = REQUEST_TIMEOUT\<rparr>
         in ([request],
             case fetchWithTimeout (fetch request) of
               Inl e \<Rightarrow> Inl (rethrowKnown (js ''Failed to analyze resume'') e)
             | Inr response \<Rightarrow>
                 (case handleResponse response of
                    Inl e \<Rightarrow> Inl (rethrowKnown (js ''Failed to analyze resume'') e)
                  | Inr result \<Rightarrow> Inr result))))"

definition apiClient_generateQuestions ::
  "(fetch_request \<Rightarrow> QuestionsResult ApiResponse fetch_outcome) \<Rightarrow> jsstring \<Rightarrow>
     (jsstring \<times> jsstring list) option \<Rightarrow>
     fetch_request list \<times> (thrown + InterviewQuestion list)" where
  "apiClient_generateQuestions fetch resumeText analysisResult =
     (if resumeText = [] \<or> length (trim resumeText) = 0 then
        ([], Inl (ApiError (js ''Resume text cannot be empty'')
                    (Some (js ''EMPTY_RESUME_TEXT'')) (Some 400) False))
      else
        (let request = \<lparr>endpoint = ''/api/generate-questions'', http_method = ''POST'',
                         body = Some (QuestionsRequest resumeText analysisResult),
                         timeout = REQUEST_TIMEOUT\<rparr>
         in ([request],
             case fetchWithTimeout (fetch request) of
               Inl e \<Rightarrow> Inl (rethrowKnown (js ''Failed to generate questions'') e)
             | Inr response \<Rightarrow>
                 (case handleResponse response of
                    Inl e \<Rightarrow> Inl (rethrowKnown (js ''Failed to generate questions'') e)
                  | Inr result \<Rightarrow> Inr (questions result)))))"



subsection \<open>Sample responses\<close>


definition sampleAnalysis :: AnalysisResult where
  "sampleAnalysis =
     \<lparr>isPerfect = False, overallScore = 85, summary = js ''Solid resume'',
      suggestions = [js ''Quantify achievements''], unnecessaryItems = [],
      strengths = [js ''Clear structure''], formattingFeedback = [],
      keywordAnalysis = \<lparr>score = 70, missingKeywords = [], presentKeywords = [js ''SQL'']\<rparr>\<rparr>"

definition analysisEnvelope :: "AnalysisResult ApiResponse" where
  "analysisEnvelope = \<lparr>success = True, data = Some sampleAnalysis, error = None, code = None\<rparr>"

definition rateLimitEnvelope :: "'a ApiResponse" where
  "rateLimitEnvelope =
     \<lparr>success = False, data = None, error = Some (js ''Too many requests''),
      code = Some (js ''RATE_LIMIT_EXCEEDED'')\<rparr>"

definition unavailableEnvelope :: "'a ApiResponse" where
  "unavailableEnvelope =
     \<lparr>success = False, data = None, error = Some (js ''Technical error message''),
      code = Some (js ''AI_SERVICE_UNAVAILABLE'')\<rparr>"

definition badRequestEnvelope :: "'a ApiResponse" where
  "badRequestEnvelope =
     \<lparr>success = False, data = None, error = None, code = Some (js ''BAD_REQUEST'')\<rparr>"

definition analysisOk :: "AnalysisResult ApiResponse Response" where
  "analysisOk = \<lparr>status = 200, json = Json analysisEnvelope\<rparr>"

definition throttled :: "'a ApiResponse Response" where
  "throttled = \<lparr>status = 429, json = Json rateLimitEnvelope\<rparr>"


definition unavailable :: "'a ApiResponse Response" where
  "unavailable = \<lparr>status = 503, json = Json unavailableEnvelope\<rparr>"


definition throttledNull :: "'a Response" where
  "throttledNull = \<lparr>status = 429, json = JsonNull\<rparr>"

definition unavailableNull :: "'a Response" where
  "unavailableNull = \<lparr>status = 503, json = JsonNull\<rparr>"


definition badRequest :: "'a ApiResponse Response" where
  "badRequest = \<lparr>status = 400, json = Json badRequestEnvelope\<rparr>"

definition successWithoutData :: "'a ApiResponse" where
  "successWithoutData = \<lparr>success = True, data = None, error = None, code = None\<rparr>"

definition okWithoutData :: "'a ApiResponse Response" where
  "okWithoutData = \<lparr>status = 200, json = Json successWithoutData\<rparr>"

definition unavailableWithoutData :: "'a ApiResponse Response" where
  "unavailableWithoutData = \<lparr>status = 503, json = Json successWithoutData\<rparr>"

text \<open>A network that answers every request with the same response, and one that is down.\<close>

definition respond :: "'a Response \<Rightarrow> fetch_request \<Rightarrow> 'a fetch_outcome" where
  "respond response request = Resolves response"

definition offline :: "fetch_request \<Rightarrow> 'a fetch_outcome" where
  "offline request = Rejects (OtherError (js ''TypeError'') (js ''Failed to fetch''))"

definition analyzeRequest :: "jsstring \<Rightarrow> fetch_request" where
  "analyzeRequest resumeText =
     \<lparr>endpoint = ''/api/analyze'', http_method = ''POST'',
      body = Some (AnalysisRequest resumeText), timeout = REQUEST_TIMEOUT\<rparr>"

definition questionsRequest :: "jsstring \<Rightarrow> AnalysisResult \<Rightarrow> fetch_request" where
  "questionsRequest resumeText a =
     \<lparr>endpoint = ''/api/generate-questions'', http_method = ''POST'',
      body = Some (QuestionsRequest resumeText (Some (summary a, suggestions a))),
      timeout = REQUEST_TIMEOUT\<rparr>"

definition sampleResume :: jsstring where
  "sampleResume = js ''Jane Doe. Software engineer, ten years of experience in Haskell.''"

definition shortResume :: jsstring where
  "shortResume = js ''  Jane Doe, engineer  ''"


section \<open>The analysis orchestrator (hooks/useAnalysis.ts)\<close>

datatype LastOperation =
    analyze jsstring
  | questions_op jsstring AnalysisResult

text \<open>
  The seven state cells of the hook.  \<open>fetchCalls\<close> is not a cell of the source: it
  records, in order, every request the hook's calls into the API client handed to
  \<open>fetch\<close>.
\<close>

record UseAnalysis =
  analysisResult :: "AnalysisResult option"
  interviewQuestions :: "InterviewQuestion list option"
  isAnalyzing :: bool
  isGeneratingQuestions :: bool
  error :: "jsstring option"
  isRetryable :: bool
  lastOperation :: "LastOperation option"
  fetchCalls :: "fetch_request list"

definition initial :: UseAnalysis where
  "initial = \<lparr>analysisResult = None, interviewQuestions = None, isAnalyzing = False,
              isGeneratingQuestions = False, error = None, isRetryable = False,
              lastOperation = None, fetchCalls = []\<rparr>"

text \<open>
  The catch block shared by both operations: message and retryability are taken from an
  instance of one of the four classes of the client, only the message from any other
  \<open>Error\<close>, and the fallback message with \<open>retryable = false\<close> otherwise.
\<close>

fun catchBlock :: "jsstring \<Rightarrow> thrown \<Rightarrow> jsstring \<times> bool" where
  "catchBlock fallback (RateLimitError m) = (m, error_isRetryable (RateLimitError m))"
| "catchBlock fallback (ApiError m c st r) = (m, error_isRetryable (ApiError m c st r))"
| "catchBlock fallback (NetworkError m) = (m, error_isRetryable (NetworkError m))"
| "catchBlock fallback (TimeoutError m) = (m, error_isRetryable (TimeoutError m))"
| "catchBlock fallback (OtherError n m) = (m, False)"
| "catchBlock fallback NonError = (fallback, False)"

text \<open>
  An operation runs in two steps of the event loop.  The first step runs up to the
  \<open>await\<close>: it either returns early (\<open>Inl\<close>) or has called the API client, which has
  handed its request to \<open>fetch\<close>, and is left waiting for the promise (\<open>Inr\<close>, with what
  the promise will settle to).  The second step is the rest of the \<open>try\<close> statement, run
  when the promise settles.
\<close>

definition analyzeResume_begin ::
  "(fetch_request \<Rightarrow> AnalysisResult ApiResponse fetch_outcome) \<Rightarrow> jsstring \<Rightarrow>
     UseAnalysis \<Rightarrow> UseAnalysis + UseAnalysis \<times> (thrown + AnalysisResult)" where
  "analyzeResume_begin fetch resumeText s =
     (if resumeText = [] \<or> length (trim resumeText) = 0 then
        Inl (s\<lparr>error := Some (js ''Resume text is empty. Please upload a valid resume.''),
               isRetryable := False\<rparr>)
      else if length (trim resumeText) < 50 then
        Inl (s\<lparr>error := Some (js (''Resume is too short. Please upload a complete '' @
                                   ''resume with sufficient content.'')),
               isRetryable := False\<rparr>)
      else
        (let call = apiClient_analyzeResume fetch resumeText
         in Inr (s\<lparr>isAnalyzing := True, error := None, isRetryable := False,
                     lastOperation := Some (analyze resumeText),
                     fetchCalls := fetchCalls s @ fst call\<rparr>,
                 snd call)))"

definition analyzeResume_settle ::
  "thrown + AnalysisResult \<Rightarrow> UseAnalysis \<Rightarrow> UseAnalysis" where
  "analyzeResume_settle settled s =
     (case settled of
        Inr result \<Rightarrow>
          s\<lparr>analysisResult := Some result, lastOperation := None, isAnalyzing := False\<rparr>
      | Inl err \<Rightarrow>
          (let (errorMessage, retryable) = catchBlock (js ''Failed to analyze resume'') err
           in s\<lparr>error := Some errorMessage, isRetryable := retryable,
                 analysisResult := None, isAnalyzing := False\<rparr>))"

definition analyzeResume ::
  "(fetch_request \<Rightarrow> AnalysisResult ApiResponse fetch_outcome) \<Rightarrow> jsstring \<Rightarrow>
     UseAnalysis \<Rightarrow> UseAnalysis" where
  "analyzeResume fetch resumeText s =
     (case analyzeResume_begin fetch resumeText s of
        Inl s' \<Rightarrow> s'
      | Inr (s', settled) \<Rightarrow> analyzeResume_settle settled s')"

definition generateQuestions_begin ::
  "(fetch_request \<Rightarrow> QuestionsResult ApiResponse fetch_outcome) \<Rightarrow> jsstring \<Rightarrow>
     AnalysisResult option \<Rightarrow> UseAnalysis \<Rightarrow>
     UseAnalysis + UseAnalysis \<times> (thrown + InterviewQuestion list)" where
  "generateQuestions_begin fetch resumeText analysisResult' s =
     (if resumeText = [] \<or> length (trim resumeText) = 0 then
        Inl (s\<lparr>error := Some (js ''Resume text is required to generate questions.''),
               isRetryable := False\<rparr>)
      else
        (case analysisResult' of
           None \<Rightarrow>
             Inl (s\<lparr>error := Some (js ''Analysis result is required to generate questions.''),
                    isRetryable := False\<rparr>)
         | Some a \<Rightarrow>
             (let call = apiClient_generateQuestions fetch resumeText
                           (Some (summary a, suggestions a))
              in Inr (s\<lparr>isGeneratingQuestions := True, error := None, isRetryable := False,
                          lastOperation := Some (questions_op resumeText a),
                          fetchCalls := fetchCalls s @ fst call\<rparr>,
                      snd call))))"

definition generateQuestions_settle ::
  "thrown + InterviewQuestion list \<Rightarrow> UseAnalysis \<Rightarrow> UseAnalysis" where
  "generateQuestions_settle settled s =
     (case settled of
        Inr qs \<Rightarrow>
          s\<lparr>interviewQuestions := Some qs, lastOperation := None,
            isGeneratingQuestions := False\<rparr>
      | Inl err \<Rightarrow>
          (let (errorMessage, retryable) =
                 catchBlock (js ''Failed to generate interview questions'') err
           in s\<lparr>error := Some errorMessage, isRetryable := retryable,
                 interviewQuestions := None, isGeneratingQuestions := False\<rparr>))"

definition generateQuestions ::
  "(fetch_request \<Rightarrow> QuestionsResult ApiResponse fetch_outcome) \<Rightarrow> jsstring \<Rightarrow>
     AnalysisResult option \<Rightarrow> UseAnalysis \<Rightarrow> UseAnalysis" where
  "generateQuestions fetch resumeText analysisResult' s =
     (case generateQuestions_begin fetch resumeText analysisResult' s of
        Inl s' \<Rightarrow> s'
      | Inr (s', settled) \<Rightarrow> generateQuestions_settle settled s')"


definition clearError :: "UseAnalysis \<Rightarrow> UseAnalysis" where
  "clearError s = s\<lparr>error := None, isRetryable := False\<rparr>"

definition reset :: "UseAnalysis \<Rightarrow> UseAnalysis" where
  "reset s = s\<lparr>analysisResult := None, interviewQuestions := None, error := None,
              isRetryable := False, isAnalyzing := False, isGeneratingQuestions := False,
              lastOperation := None\<rparr>"

subsection \<open>Sample sessions\<close>

text \<open>
  A session whose analysis request is in flight, and one that holds the result of an
  earlier analysis and the questions of an earlier generation.
\<close>

definition inFlight :: UseAnalysis where
  "inFlight = initial\<lparr>isAnalyzing := True, lastOperation := Some (analyze sampleResume),
                      fetchCalls := [analyzeRequest sampleResume]\<rparr>"

definition sampleQuestions :: "InterviewQuestion list" where
  "sampleQuestions =
     [\<lparr>question = js ''Describe a challenging project'', category = behavioral,
       difficulty = hard\<rparr>]"

definition analysed :: UseAnalysis where
  "analysed = initial\<lparr>analysisResult := Some sampleAnalysis,
                       interviewQuestions := Some sampleQuestions\<rparr>"


section \<open>JavaScript numbers\<close>

text \<open>
  The scale of the viewer is a JavaScript number.  Finite values are taken as reals
  (rounding is left out), and the three values that division produces beyond them are
  kept: \<open>x / 0\<close> is an infinity for \<open>x \<noteq> 0\<close> and \<open>0 / 0\<close> is \<open>NaN\<close>.  Every zero is \<open>+0\<close>:
  the divisors of the viewer are a \<open>Math.hypot\<close> result and a canvas width over a
  scale, none of which is \<open>-0\<close>.  \<open>Math.min\<close> and \<open>Math.max\<close> return \<open>NaN\<close> as soon as
  one argument is \<open>NaN\<close>.
\<close>

datatype jsnum = Finite real | PosInfinity | NegInfinity | NaN

fun js_add :: "jsnum \<Rightarrow> jsnum \<Rightarrow> jsnum" where
  "js_add NaN b = NaN"
| "js_add a NaN = NaN"
| "js_add (Finite a) (Finite b) = Finite (a + b)"
| "js_add PosInfinity NegInfinity = NaN"
| "js_add NegInfinity PosInfinity = NaN"
| "js_add PosInfinity b = PosInfinity"
| "js_add NegInfinity b = NegInfinity"
| "js_add (Finite a) b = b"

fun js_neg :: "jsnum \<Rightarrow> jsnum" where
  "js_neg (Finite a) = Finite (- a)"
| "js_neg PosInfinity = NegInfinity"
| "js_neg NegInfinity = PosInfinity"
| "js_neg NaN = NaN"

definition js_sub :: "jsnum \<Rightarrow> jsnum \<Rightarrow> jsnum" where
  "js_sub a b = js_add a (js_neg b)"

fun js_mul :: "jsnum \<Rightarrow> jsnum \<Rightarrow> jsnum" where
  "js_mul NaN b = NaN"
| "js_mul a NaN = NaN"
| "js_mul (Finite a) (Finite b) = Finite (a * b)"
| "js_mul (Finite a) PosInfinity =
     (if a = 0 then NaN else if 0 < a then PosInfinity else NegInfinity)"
| "js_mul (Finite a) NegInfinity =
     (if a = 0 then NaN else if 0 < a then NegInfinity else PosInfinity)"
| "js_mul PosInfinity (Finite b) =
     (if b = 0 then NaN else if 0 < b then PosInfinity else NegInfinity)"
| "js_mul NegInfinity (Finite b) =
     (if b = 0 then NaN else if 0 < b then NegInfinity else PosInfinity)"
| "js_mul PosInfinity PosInfinity = PosInfinity"
| "js_mul NegInfinity NegInfinity = PosInfinity"
| "js_mul PosInfinity NegInfinity = NegInfinity"
| "js_mul NegInfinity PosInfinity = NegInfinity"

fun js_div :: "jsnum \<Rightarrow> jsnum \<Rightarrow> jsnum" where
  "js_div NaN b = NaN"
| "js_div a NaN = NaN"
| "js_div (Finite a) (Finite b) =
     (if b = 0 then (if a = 0 then NaN else if 0 < a then PosInfinity else NegInfinity)
      else Finite (a / b))"
| "js_div (Finite a) b = Finite 0"
| "js_div PosInfinity (Finite b) = (if 0 \<le> b then PosInfinity else NegInfinity)"
| "js_div NegInfinity (Finite b) = (if 0 \<le> b then NegInfinity else PosInfinity)"
| "js_div a b = NaN"

fun Math_max :: "jsnum \<Rightarrow> jsnum \<Rightarrow> jsnum" where
  "Math_max NaN b = NaN"
| "Math_max a NaN = NaN"
| "Math_max PosInfinity b = PosInfinity"
| "Math_max a PosInfinity = PosInfinity"
| "Math_max NegInfinity b = b"
| "Math_max a NegInfinity = a"
| "Math_max (Finite a) (Finite b) = Finite (max a b)"

fun Math_min :: "jsnum \<Rightarrow> jsnum \<Rightarrow> jsnum" where
  "Math_min NaN b = NaN"
| "Math_min a NaN = NaN"
| "Math_min NegInfinity b = NegInfinity"
| "Math_min a NegInfinity = NegInfinity"
| "Math_min PosInfinity b = b"
| "Math_min a PosInfinity = a"
| "Math_min (Finite a) (Finite b) = Finite (min a b)"

text \<open>\<open>Math.hypot\<close> of two finite numbers.\<close>

definition Math_hypot :: "real \<Rightarrow> real \<Rightarrow> real" where
  "Math_hypot a b = sqrt (a * a + b * b)"


section \<open>The PDF viewer (components/PDFPreview.tsx)\<close>

text \<open>
  The state cells and the ref that the navigation, zoom and touch handlers read and
  write; \<open>toasts\<close> collects the notifications the handlers raise, in order.
\<close>

record Touch =
  clientX :: real
  clientY :: real

record TouchStart =
  start_x :: real
  start_y :: real
  distance :: real

datatype toast = toast_success jsstring | toast_error jsstring

record PDFPreview =
  numPages :: int
  currentPage :: int
  scale :: jsnum
  pageInputValue :: jsstring
  touchStartRef :: "TouchStart option"
  toasts :: "toast list"

text \<open>
  The bodies of the handlers, as functions of the state cells.  \<open>e.touches\<close> is the list
  of the touches of the event.  The effect that attaches the touch handlers runs again
  after every change of \<open>scale\<close>, so an attached \<open>handleTouchMove\<close> reads the current
  scale; whether the handlers are attached at all is the subject of the subsection on
  rendering below, and a touch event reaches them through \<open>touchEvent\<close>.
\<close>

definition handleTouchStart :: "Touch list \<Rightarrow> PDFPreview \<Rightarrow> PDFPreview" where
  "handleTouchStart touches s =
     (case touches of
        [touch1, touch2] \<Rightarrow>
          (let distance' = Math_hypot (clientX touch2 - clientX touch1)
                                      (clientY touch2 - clientY touch1)
           in s\<lparr>touchStartRef :=
                  Some \<lparr>start_x = (clientX touch1 + clientX touch2) / 2,
                        start_y = (clientY touch1 + clientY touch2) / 2,
                        distance = distance'\<rparr>\<rparr>)
      | _ \<Rightarrow> s)"

definition handleTouchMove :: "Touch list \<Rightarrow> PDFPreview \<Rightarrow> PDFPreview" where
  "handleTouchMove touches s =
     (case touches of
        [touch1, touch2] \<Rightarrow>
          (case touchStartRef s of
             None \<Rightarrow> s
           | Some start \<Rightarrow>
               (let distance' = Math_hypot (clientX touch2 - clientX touch1)
                                           (clientY touch2 - clientY touch1);
                    scaleDelta = js_div (Finite distance') (Finite (distance start));
                    newScale = Math_min (Finite 3.0)
                                 (Math_max (Finite 0.5) (js_mul (scale s) scaleDelta))
                in s\<lparr>scale := newScale,
                      touchStartRef := Some (start\<lparr>distance := distance'\<rparr>)\<rparr>))
      | _ \<Rightarrow> s)"

definition handleTouchEnd :: "PDFPreview \<Rightarrow> PDFPreview" where
  "handleTouchEnd s = s\<lparr>touchStartRef := None\<rparr>"

definition handleZoomIn :: "PDFPreview \<Rightarrow> PDFPreview" where
  "handleZoomIn s = s\<lparr>scale := Math_min (Finite 3.0) (js_add (scale s) (Finite 0.25))\<rparr>"

definition handleZoomOut :: "PDFPreview \<Rightarrow> PDFPreview" where
  "handleZoomOut s = s\<lparr>scale := Math_max (Finite 0.5) (js_sub (scale s) (Finite 0.25))\<rparr>"

definition handleResetZoom :: "PDFPreview \<Rightarrow> PDFPreview" where
  "handleResetZoom s =
     s\<lparr>scale := Finite 1.0, toasts := toasts s @ [toast_success (js ''Zoom reset to 100%'')]\<rparr>"

text \<open>
  \<open>handleFitToWidth\<close> reads \<open>clientWidth\<close> of the container and \<open>width\<close> of the canvas
  through two refs, either of which may be null (\<open>None\<close>).
\<close>

definition handleFitToWidth :: "nat option \<Rightarrow> nat option \<Rightarrow> PDFPreview \<Rightarrow> PDFPreview" where
  "handleFitToWidth containerRef canvasRef s =
     (case (containerRef, canvasRef) of
        (Some clientWidth, Some width) \<Rightarrow>
          (let containerWidth = Finite (real clientWidth - 32);
               canvasWidth = js_div (Finite (real width)) (scale s);
               newScale = js_div containerWidth canvasWidth
           in s\<lparr>scale := Math_min (Finite 3.0) (Math_max (Finite 0.5) newScale),
                 toasts := toasts s @ [toast_success (js ''Fitted to width'')]\<rparr>)
      | _ \<Rightarrow> s)"

text \<open>
  \<open>parseInt(string, 10)\<close>: leading white space is skipped, one sign is read, and the
  longest run of decimal digits is the value; no digit gives \<open>NaN\<close> (\<open>None\<close>).  The
  result is compared with 1 and \<open>numPages\<close> only, for which the exact integer and the
  double nearest to it agree.
\<close>

definition toString_int :: "int \<Rightarrow> jsstring" where
  "toString_int i = (if i < 0 then 0x2D # toString_nat (nat (- i)) else toString_nat (nat i))"

definition isDigit :: "16 word \<Rightarrow> bool" where
  "isDigit c \<longleftrightarrow> 0x30 \<le> c \<and> c \<le> 0x39"

definition digitValue :: "16 word \<Rightarrow> int" where
  "digitValue c = uint c - 48"

definition parseInt :: "jsstring \<Rightarrow> int option" where
  "parseInt string =
     (let S = dropWhile isWhiteSpace string;
          sign = (if S \<noteq> [] \<and> hd S = 0x2D then - 1 else 1);
          S' = (if S \<noteq> [] \<and> (hd S = 0x2B \<or> hd S = 0x2D) then tl S else S);
          Z = takeWhile isDigit S'
      in if Z = [] then None
         else Some (sign * foldl (\<lambda>acc c. acc * 10 + digitValue c) 0 Z))"

definition handlePreviousPage :: "PDFPreview \<Rightarrow> PDFPreview" where
  "handlePreviousPage s =
     (let newPage = max 1 (currentPage s - 1)
      in s\<lparr>currentPage := newPage, pageInputValue := toString_int newPage\<rparr>)"

definition handleNextPage :: "PDFPreview \<Rightarrow> PDFPreview" where
  "handleNextPage s =
     (let newPage = min (numPages s) (currentPage s + 1)
      in s\<lparr>currentPage := newPage, pageInputValue := toString_int newPage\<rparr>)"

definition handlePageInputChange :: "jsstring \<Rightarrow> PDFPreview \<Rightarrow> PDFPreview" where
  "handlePageInputChange v s = s\<lparr>pageInputValue := v\<rparr>"

definition handlePageInputSubmit :: "PDFPreview \<Rightarrow> PDFPreview" where
  "handlePageInputSubmit s =
     (case parseInt (pageInputValue s) of
        Some pageNum \<Rightarrow>
          if pageNum \<ge> 1 \<and> pageNum \<le> numPages s then
            s\<lparr>currentPage := pageNum,
              toasts := toasts s @ [toast_success (js ''Jumped to page '' @ toString_int pageNum)]\<rparr>
          else
            s\<lparr>pageInputValue := toString_int (currentPage s),
              toasts := toasts s @
                [toast_error (js ''Invalid page number. Must be between 1 and '' @
                              toString_int (numPages s))]\<rparr>
      | None \<Rightarrow>
          s\<lparr>pageInputValue := toString_int (currentPage s),
            toasts := toasts s @
              [toast_error (js ''Invalid page number. Must be between 1 and '' @
                            toString_int (numPages s))]\<rparr>)"

subsection \<open>Rendering and the touch effect\<close>

text \<open>
  The component renders one of three views: the loading view while \<open>isLoading\<close>, the
  error view while the state cell \<open>error\<close> (here \<open>pdfError\<close>) is a non-empty string, and the
  view with the container and the canvas otherwise.  Only the last one sets
  \<open>containerRef\<close>.

  The touch handlers are attached by an effect with the dependencies \<open>[scale]\<close>.  It
  runs after the first render and after every render in which \<open>scale\<close> has changed; it
  returns at once when \<open>containerRef.current\<close> is null, and otherwise attaches the three
  handlers to the container, after its cleanup has removed those of the previous run.
  \<open>touchListening\<close> is not a cell of the source: it records whether the handlers are on
  the container that is displayed.
\<close>

record Rendering =
  cells :: PDFPreview
  isLoading :: bool
  pdfError :: "jsstring option"
  touchListening :: bool

definition containerRendered :: "Rendering \<Rightarrow> bool" where
  "containerRendered v \<longleftrightarrow>
     \<not> isLoading v \<and> (case pdfError v of None \<Rightarrow> True | Some m \<Rightarrow> m = [])"

text \<open>
  A state change followed by the render and its effects.  With \<open>scale\<close> unchanged the
  effect does not run: the handlers stay when the container stays, and a container that
  has just been rendered has none.  With \<open>scale\<close> changed the effect runs and attaches
  them when there is a container.
\<close>

definition commit :: "Rendering \<Rightarrow> Rendering \<Rightarrow> Rendering" where
  "commit before after =
     after\<lparr>touchListening :=
             (if scale (cells after) = scale (cells before)
              then touchListening before \<and> containerRendered before \<and> containerRendered after
              else containerRendered after)\<rparr>"

text \<open>The component after its first render: the loading view, at scale 1.0.\<close>

definition mount :: Rendering where
  "mount =
     \<lparr>cells = \<lparr>numPages = 0, currentPage = 1, scale = Finite 1.0, pageInputValue = js ''1'',
               touchStartRef = None, toasts = []\<rparr>,
      isLoading = True, pdfError = None, touchListening = False\<rparr>"

text \<open>
  \<open>loadPDF\<close>: the state changes before the document is awaited, and those after the
  promise settles, with the page count of the document or with a failure (\<open>None\<close>).
\<close>

definition loadPDF_begin :: "Rendering \<Rightarrow> Rendering" where
  "loadPDF_begin v = commit v (v\<lparr>isLoading := True, pdfError := None\<rparr>)"

definition loadPDF_settle :: "nat option \<Rightarrow> Rendering \<Rightarrow> Rendering" where
  "loadPDF_settle pdf v =
     commit v
       (case pdf of
          Some n \<Rightarrow>
            v\<lparr>cells := (cells v)\<lparr>numPages := int n,
                                   toasts := toasts (cells v) @
                                     [toast_success (js ''PDF loaded successfully'')]\<rparr>,
              isLoading := False\<rparr>
        | None \<Rightarrow>
            v\<lparr>pdfError := Some (js ''Failed to load PDF. The file may be corrupted.''),
              isLoading := False\<rparr>)"

definition loadPDF :: "nat option \<Rightarrow> Rendering \<Rightarrow> Rendering" where
  "loadPDF pdf v = loadPDF_settle pdf (loadPDF_begin v)"

text \<open>
  A handler of the buttons, the form or the keyboard run on the component, and a touch
  event on the container: the touch handlers run only when they are attached.
\<close>

definition act :: "(PDFPreview \<Rightarrow> PDFPreview) \<Rightarrow> Rendering \<Rightarrow> Rendering" where
  "act handler v = commit v (v\<lparr>cells := handler (cells v)\<rparr>)"

definition touchEvent ::
  "(Touch list \<Rightarrow> PDFPreview \<Rightarrow> PDFPreview) \<Rightarrow> Touch list \<Rightarrow> Rendering \<Rightarrow> Rendering" where
  "touchEvent handler touches v = (if touchListening v then act (handler touches) v else v)"

text \<open>The range the scale is meant to stay in.\<close>

fun inRange :: "jsnum \<Rightarrow> bool" where
  "inRange (Finite r) = (0.5 \<le> r \<and> r \<le> 3.0)"
| "inRange _ = False"

subsection \<open>Sample viewer states and touches\<close>

definition viewer0 :: PDFPreview where
  "viewer0 = \<lparr>numPages = 5, currentPage = 2, scale = Finite 1.0, pageInputValue = js ''2'',
              touchStartRef = None, toasts = []\<rparr>"

definition touchAt :: "real \<Rightarrow> real \<Rightarrow> Touch" where
  "touchAt px py = \<lparr>clientX = px, clientY = py\<rparr>"

text \<open>
  A document of 5 pages that has just been loaded, and the same document after the zoom
  has been stepped up and down again.
\<close>

definition freshlyLoaded :: Rendering where
  "freshlyLoaded = loadPDF (Some 5) mount"

definition zoomedBack :: Rendering where
  "zoomedBack = act handleZoomOut (act handleZoomIn freshlyLoaded)"


section \<open>The specification's wording\<close>

text \<open>
  An error message names the minimum content length when the number 50 occurs in it.
\<close>

definition namesMinimum :: "jsstring \<Rightarrow> bool" where
  "namesMinimum message \<longleftrightarrow> includes_str message (toString_nat 50)"


section \<open>Helper lemmas\<close>

subsection \<open>Strings\<close>

lemma trim_Nil [simp]: "trim [] = []"
  by (simp add: trim_def)

lemma length_trim_sampleResume: "length (trim sampleResume) = 64"
  by (simp add: sampleResume_def trim_def js_def isWhiteSpace_def)

lemma length_trim_shortResume: "length (trim shortResume) = 18"
  by (simp add: shortResume_def trim_def js_def isWhiteSpace_def)

lemma trim_sampleResume_nonempty: "trim sampleResume \<noteq> []"
  using length_trim_sampleResume by auto

lemma unknown_nonempty [simp]: "orElse c (js ''UNKNOWN_ERROR'') \<noteq> []"
  by (simp add: orElse_def js_def split: option.split)

subsection \<open>The API client\<close>

lemma rethrowKnown_client [simp]: "clientError (rethrowKnown fb x)"
  by (cases x) auto

lemma apiClient_analyzeResume_throws:
  "snd (apiClient_analyzeResume fetch t) = Inl e \<Longrightarrow> clientError e"
  by (auto simp: apiClient_analyzeResume_def Let_def split: if_splits sum.splits)

lemma apiClient_generateQuestions_throws:
  "snd (apiClient_generateQuestions fetch t a) = Inl e \<Longrightarrow> clientError e"
  by (auto simp: apiClient_generateQuestions_def Let_def split: if_splits sum.splits)

lemma catchBlock_client:
  "clientError e \<Longrightarrow> catchBlock fb e = (error_message e, error_isRetryable e)"
  by (cases e) auto

lemma apiClient_analyzeResume_requests:
  "trim t \<noteq> [] \<Longrightarrow> fst (apiClient_analyzeResume fetch t) = [analyzeRequest t]"
  by (auto simp: apiClient_analyzeResume_def analyzeRequest_def Let_def)

lemma apiClient_generateQuestions_requests:
  "trim t \<noteq> [] \<Longrightarrow>
   fst (apiClient_generateQuestions fetch t (Some (summary a, suggestions a))) =
     [questionsRequest t a]"
  by (auto simp: apiClient_generateQuestions_def questionsRequest_def Let_def)

lemma fetchWithTimeout_Resolves [simp]: "fetchWithTimeout (Resolves response) = Inr response"
  by (simp add: fetchWithTimeout_def)

lemma apiClient_analyzeResume_resolves:
  assumes "trim t \<noteq> []" and "fetch (analyzeRequest t) = Resolves response"
  shows "snd (apiClient_analyzeResume fetch t) =
     (case handleResponse response of
        Inl e \<Rightarrow> Inl (rethrowKnown (js ''Failed to analyze resume'') e)
      | Inr x \<Rightarrow> Inr x)"
proof -
  from assms(1) have "t \<noteq> []" by auto
  then show ?thesis using assms
    by (simp add: apiClient_analyzeResume_def Let_def analyzeRequest_def)
qed

lemma apiClient_generateQuestions_resolves:
  assumes "trim t \<noteq> []" and "fetch (questionsRequest t a) = Resolves response"
  shows "snd (apiClient_generateQuestions fetch t (Some (summary a, suggestions a))) =
     (case handleResponse response of
        Inl e \<Rightarrow> Inl (rethrowKnown (js ''Failed to generate questions'') e)
      | Inr x \<Rightarrow> Inr (questions x))"
proof -
  from assms(1) have "t \<noteq> []" by auto
  then show ?thesis using assms
    by (simp add: apiClient_generateQuestions_def Let_def questionsRequest_def)
qed



lemma handleResponse_null:
  "json response = JsonNull \<Longrightarrow> \<exists>m. handleResponse response = Inl (OtherError (js ''TypeError'') m)"
  by (simp add: handleResponse_def)

lemma handleResponse_no_data:
  "json response = Json d \<Longrightarrow> ok response \<Longrightarrow> success d \<Longrightarrow> data d = None \<Longrightarrow>
   handleResponse response =
     Inl (ApiError (js ''No data in response'') (Some (js ''NO_DATA''))
            (Some (status response)) False)"
  by (simp add: handleResponse_def)

lemma handleResponse_data:
  "json response = Json d \<Longrightarrow> ok response \<Longrightarrow> success d \<Longrightarrow> data d = Some x \<Longrightarrow>
   handleResponse response = Inr x"
  by (simp add: handleResponse_def)




lemma rethrowKnown_ApiError:
  "rethrowKnown fb e = ApiError m c st r \<Longrightarrow>
     e = ApiError m c st r \<or>
     (c = Some (js ''UNKNOWN_ERROR'') \<and> st = None \<and> r = False \<and> \<not> clientError e)"
  by (cases e) auto

subsection \<open>Sample calls of the API client\<close>

lemma respond_Resolves: "respond response request = Resolves response"
  by (simp add: respond_def)

lemma handleResponse_analysisOk: "handleResponse analysisOk = Inr sampleAnalysis"
  by (simp add: handleResponse_def analysisOk_def analysisEnvelope_def ok_def)

lemma handleResponse_unavailable:
  "handleResponse unavailable =
     Inl (ApiError (js ''AI service is currently unavailable. Please try again later.'')
            (Some (js ''AI_SERVICE_UNAVAILABLE'')) (Some 503) True)"
  by (simp add: handleResponse_def unavailable_def unavailableEnvelope_def ok_def Let_def orElse_def
        getUserFriendlyMessage_def errorMessages_def isRetryableError_def
        retryableStatusCodes_def js_def)

lemma handleResponse_badRequest:
  "handleResponse badRequest =
     Inl (ApiError (js ''Invalid request. Please check your input.'')
            (Some (js ''BAD_REQUEST'')) (Some 400) False)"
  by (simp add: handleResponse_def badRequest_def badRequestEnvelope_def ok_def Let_def orElse_def
        getUserFriendlyMessage_def errorMessages_def isRetryableError_def
        retryableStatusCodes_def retryableErrorCodes_def js_def)

lemma handleResponse_throttled:
  "handleResponse throttled =
     Inl (RateLimitError (js ''Too many requests. Please wait a moment and try again.''))"
  by (simp add: handleResponse_def throttled_def rateLimitEnvelope_def ok_def Let_def orElse_def
        getUserFriendlyMessage_def errorMessages_def js_def)

lemma api_analysisOk:
  "snd (apiClient_analyzeResume (respond analysisOk) sampleResume) = Inr sampleAnalysis"
  unfolding apiClient_analyzeResume_resolves [where fetch = "respond analysisOk",
        OF trim_sampleResume_nonempty respond_Resolves]
  by (simp add: handleResponse_analysisOk)

lemma api_unavailable:
  "snd (apiClient_analyzeResume (respond unavailable) sampleResume) =
     Inl (ApiError (js ''AI service is currently unavailable. Please try again later.'')
            (Some (js ''AI_SERVICE_UNAVAILABLE'')) (Some 503) True)"
  unfolding apiClient_analyzeResume_resolves [where fetch = "respond unavailable",
        OF trim_sampleResume_nonempty respond_Resolves]
  by (simp add: handleResponse_unavailable)

lemma api_throttled:
  "snd (apiClient_analyzeResume (respond throttled) sampleResume) =
     Inl (RateLimitError (js ''Too many requests. Please wait a moment and try again.''))"
  unfolding apiClient_analyzeResume_resolves [where fetch = "respond throttled",
        OF trim_sampleResume_nonempty respond_Resolves]
  by (simp add: handleResponse_throttled)

lemma api_questions_badRequest:
  "snd (apiClient_generateQuestions (respond badRequest) sampleResume
          (Some (summary sampleAnalysis, suggestions sampleAnalysis))) =
     Inl (ApiError (js ''Invalid request. Please check your input.'')
            (Some (js ''BAD_REQUEST'')) (Some 400) False)"
  unfolding apiClient_generateQuestions_resolves [where fetch = "respond badRequest",
        OF trim_sampleResume_nonempty respond_Resolves]
  by (simp add: handleResponse_badRequest)

lemma api_questions_throttled:
  "snd (apiClient_generateQuestions (respond throttled) sampleResume
          (Some (summary sampleAnalysis, suggestions sampleAnalysis))) =
     Inl (RateLimitError (js ''Too many requests. Please wait a moment and try again.''))"
  unfolding apiClient_generateQuestions_resolves [where fetch = "respond throttled",
        OF trim_sampleResume_nonempty respond_Resolves]
  by (simp add: handleResponse_throttled)

lemma api_offline:
  "snd (apiClient_analyzeResume offline sampleResume) = Inl (NetworkError NetworkError_default)"
proof -
  have "fetchWithTimeout (offline (analyzeRequest sampleResume) ::
          AnalysisResult ApiResponse fetch_outcome) = Inl (NetworkError NetworkError_default)"
    by (simp add: fetchWithTimeout_def offline_def js_def)
  moreover have "sampleResume \<noteq> []" using trim_sampleResume_nonempty by auto
  ultimately show ?thesis using trim_sampleResume_nonempty
    by (simp add: apiClient_analyzeResume_def Let_def analyzeRequest_def)
qed

subsection \<open>The orchestrator\<close>

lemma analyzeResume_begin_passes:
  assumes "50 \<le> length (trim t)"
  shows "analyzeResume_begin fetch t s =
     Inr (s\<lparr>isAnalyzing := True, error := None, isRetryable := False,
             lastOperation := Some (analyze t),
             fetchCalls := fetchCalls s @ [analyzeRequest t]\<rparr>,
          snd (apiClient_analyzeResume fetch t))"
proof -
  from assms have ne: "t \<noteq> []" "trim t \<noteq> []" by auto
  then show ?thesis using assms
    by (simp add: analyzeResume_begin_def Let_def apiClient_analyzeResume_requests)
qed

lemma generateQuestions_begin_passes:
  assumes "trim t \<noteq> []"
  shows "generateQuestions_begin fetch t (Some a) s =
     Inr (s\<lparr>isGeneratingQuestions := True, error := None, isRetryable := False,
             lastOperation := Some (questions_op t a),
             fetchCalls := fetchCalls s @ [questionsRequest t a]\<rparr>,
          snd (apiClient_generateQuestions fetch t (Some (summary a, suggestions a))))"
proof -
  from assms have ne: "t \<noteq> []" by auto
  then show ?thesis using assms
    by (simp add: generateQuestions_begin_def Let_def apiClient_generateQuestions_requests)
qed

lemma analyzeResume_succeeds:
  assumes "50 \<le> length (trim t)" and "snd (apiClient_analyzeResume fetch t) = Inr result"
  shows "analyzeResume fetch t s =
     s\<lparr>isAnalyzing := False, error := None, isRetryable := False, lastOperation := None,
       fetchCalls := fetchCalls s @ [analyzeRequest t], analysisResult := Some result\<rparr>"
  by (simp add: analyzeResume_def analyzeResume_begin_passes [OF assms(1)] assms(2)
        analyzeResume_settle_def)

lemma analyzeResume_fails:
  assumes "50 \<le> length (trim t)" and "snd (apiClient_analyzeResume fetch t) = Inl err"
  shows "analyzeResume fetch t s =
     s\<lparr>isAnalyzing := False, error := Some (error_message err),
       isRetryable := error_isRetryable err, lastOperation := Some (analyze t),
       fetchCalls := fetchCalls s @ [analyzeRequest t], analysisResult := None\<rparr>"
  by (simp add: analyzeResume_def analyzeResume_begin_passes [OF assms(1)] assms(2)
        analyzeResume_settle_def
        catchBlock_client [OF apiClient_analyzeResume_throws [OF assms(2)]])


lemma generateQuestions_fails:
  assumes "trim t \<noteq> []"
    and "snd (apiClient_generateQuestions fetch t (Some (summary a, suggestions a))) = Inl err"
  shows "generateQuestions fetch t (Some a) s =
     s\<lparr>isGeneratingQuestions := False, error := Some (error_message err),
       isRetryable := error_isRetryable err, lastOperation := Some (questions_op t a),
       fetchCalls := fetchCalls s @ [questionsRequest t a], interviewQuestions := None\<rparr>"
  by (simp add: generateQuestions_def generateQuestions_begin_passes [OF assms(1)] assms(2)
        generateQuestions_settle_def
        catchBlock_client [OF apiClient_generateQuestions_throws [OF assms(2)]])




section \<open>The orchestrator's claims\<close>

subsection \<open>C1: text shorter than 50 characters\<close>

text \<open>
  Claim C1, as the code has it.  When the trimmed text has fewer than 50 code units,
  \<open>analyzeResume\<close> returns before it calls the API client: no request reaches \<open>fetch\<close>,
  \<open>isRetryable\<close> is false, and the stored message is the fixed text for an empty resume
  when nothing is left after trimming and the fixed text for a short resume otherwise.
\<close>

theorem analyzeResume_short_text_rejected:
  assumes "length (trim resumeText) < 50"
  shows "analyzeResume_begin fetch resumeText s = Inl (analyzeResume fetch resumeText s) \<and>
         error (analyzeResume fetch resumeText s) =
           Some (if length (trim resumeText) = 0
                 then js ''Resume text is empty. Please upload a valid resume.''
                 else js (''Resume is too short. Please upload a complete '' @
                          ''resume with sufficient content.'')) \<and>
         isRetryable (analyzeResume fetch resumeText s) = False \<and>
         fetchCalls (analyzeResume fetch resumeText s) = fetchCalls s"
  using assms by (simp add: analyzeResume_def analyzeResume_begin_def)

text \<open>
  Claim C1, witness: a text of 18 characters between white space, submitted to a fresh
  session.
\<close>

theorem analyzeResume_short_text_rejected_witness:
  "length (trim shortResume) < 50 \<and>
   analyzeResume_begin offline shortResume initial =
     Inl (analyzeResume offline shortResume initial) \<and>
   error (analyzeResume offline shortResume initial) =
     Some (js (''Resume is too short. Please upload a complete '' @
               ''resume with sufficient content.'')) \<and>
   isRetryable (analyzeResume offline shortResume initial) = False \<and>
   fetchCalls (analyzeResume offline shortResume initial) = []"
proof -
  have short: "length (trim shortResume) < 50"
    by (simp add: length_trim_shortResume)
  from analyzeResume_short_text_rejected [OF short, of offline initial]
  show ?thesis using short by (simp add: length_trim_shortResume initial_def)
qed

text \<open>
  Claim C1 as stated fails: the message stored for a text that is too short does not name
  the minimum of 50.
\<close>

theorem analyzeResume_short_message_omits_minimum:
  "length (trim shortResume) < 50 \<and>
   error (analyzeResume offline shortResume initial) =
     Some (js (''Resume is too short. Please upload a complete '' @
               ''resume with sufficient content.'')) \<and>
   \<not> namesMinimum (js (''Resume is too short. Please upload a complete '' @
                        ''resume with sufficient content.''))"
proof -
  have short: "length (trim shortResume) < 50"
    by (simp add: length_trim_shortResume)
  have nonempty: "shortResume \<noteq> []"
    using length_trim_shortResume by auto
  have stored: "error (analyzeResume offline shortResume initial) =
     Some (js (''Resume is too short. Please upload a complete '' @
               ''resume with sufficient content.''))"
    using nonempty
    by (simp add: analyzeResume_def analyzeResume_begin_def length_trim_shortResume)
  have silent: "\<not> namesMinimum (js (''Resume is too short. Please upload a complete '' @
                        ''resume with sufficient content.''))"
    by (simp add: namesMinimum_def toString_nat.simps js_def)
  show ?thesis using short stored silent by blast
qed

subsection \<open>C2: no guard on \<open>isAnalyzing\<close>\<close>

text \<open>
  Claim C2, as the code has it.  \<open>analyzeResume\<close> does not read \<open>isAnalyzing\<close>: called with
  a text that passes the two checks, in any state, its first step hands one more request
  with that text to \<open>fetch\<close> and leaves \<open>isAnalyzing\<close> true.  Keeping one request in flight
  is left to the caller.
\<close>

theorem analyzeResume_begin_ignores_isAnalyzing:
  assumes "50 \<le> length (trim resumeText)"
  shows "\<exists>s' settled. analyzeResume_begin fetch resumeText s = Inr (s', settled) \<and>
           isAnalyzing s' \<and>
           fetchCalls s' = fetchCalls s @ [analyzeRequest resumeText]"
  using analyzeResume_begin_passes [OF assms] by simp

text \<open>Claim C2, witness: a session whose analysis is already in flight.\<close>

theorem analyzeResume_begin_ignores_isAnalyzing_witness:
  "50 \<le> length (trim sampleResume) \<and> isAnalyzing inFlight \<and>
   (\<exists>s' settled.
      analyzeResume_begin (offline :: fetch_request \<Rightarrow> AnalysisResult ApiResponse fetch_outcome)
        sampleResume inFlight = Inr (s', settled) \<and>
      isAnalyzing s' \<and>
      fetchCalls s' = fetchCalls inFlight @ [analyzeRequest sampleResume])"
proof -
  have passes: "50 \<le> length (trim sampleResume)"
    by (simp add: length_trim_sampleResume)
  have busy: "isAnalyzing inFlight"
    by (simp add: inFlight_def)
  from analyzeResume_begin_ignores_isAnalyzing [OF passes, of offline inFlight]
  show ?thesis using passes busy by blast
qed

text \<open>
  Claim C2 as stated fails: the first step of \<open>analyzeResume\<close> on a fresh session leaves
  the session \<open>inFlight\<close>, with \<open>isAnalyzing\<close> true and one request handed to \<open>fetch\<close>; a
  second call in that state, before the first promise settles, hands a second request to
  \<open>fetch\<close>.
\<close>

theorem analyzeResume_reentrant_second_request:
  "analyzeResume_begin offline sampleResume initial =
     Inr (inFlight, Inl (NetworkError NetworkError_default)) \<and>
   isAnalyzing inFlight \<and>
   analyzeResume_begin offline sampleResume inFlight =
     Inr (inFlight\<lparr>fetchCalls := [analyzeRequest sampleResume, analyzeRequest sampleResume]\<rparr>,
          Inl (NetworkError NetworkError_default))"
proof -
  have passes: "50 \<le> length (trim sampleResume)"
    by (simp add: length_trim_sampleResume)
  have first: "analyzeResume_begin offline sampleResume initial =
     Inr (inFlight, Inl (NetworkError NetworkError_default))"
    by (simp add: analyzeResume_begin_passes [OF passes] api_offline inFlight_def initial_def)
  have busy: "isAnalyzing inFlight"
    by (simp add: inFlight_def)
  have second: "analyzeResume_begin offline sampleResume inFlight =
     Inr (inFlight\<lparr>fetchCalls := [analyzeRequest sampleResume, analyzeRequest sampleResume]\<rparr>,
          Inl (NetworkError NetworkError_default))"
    by (simp add: analyzeResume_begin_passes [OF passes] api_offline inFlight_def initial_def)
  show ?thesis using first busy second by blast
qed

subsection \<open>C3: HTTP status 429\<close>







text \<open>
  A response with status 429 whose body is \<open>null\<close>: reading \<open>data.code\<close> throws a
  \<open>TypeError\<close>, which \<open>analyzeResume\<close> of the API client wraps in an \<open>ApiError\<close> with the
  code \<open>UNKNOWN_ERROR\<close>, no status and \<open>isRetryable = false\<close>.
\<close>

lemma apiClient_analyzeResume_null_body:
  assumes "trim t \<noteq> []" and "fetch (analyzeRequest t) = Resolves response"
    and "json response = JsonNull"
  shows "\<exists>m. snd (apiClient_analyzeResume fetch t) =
               Inl (ApiError m (Some (js ''UNKNOWN_ERROR'')) None False)"
proof -
  obtain m where "handleResponse response = Inl (OtherError (js ''TypeError'') m)"
    using handleResponse_null [OF assms(3)] by blast
  then show ?thesis
    by (simp add: apiClient_analyzeResume_resolves [where fetch = fetch, OF assms(1,2)])
qed

lemma status_429_null_body_not_retryable:
  "status (throttledNull :: AnalysisResult ApiResponse Response) = 429 \<and>
   isRetryable (analyzeResume (respond throttledNull) sampleResume initial) = False"
proof -
  have passes: "50 \<le> length (trim sampleResume)"
    by (simp add: length_trim_sampleResume)
  have j: "json (throttledNull :: AnalysisResult ApiResponse Response) = JsonNull"
    by (simp add: throttledNull_def)
  obtain m where thrown: "snd (apiClient_analyzeResume (respond throttledNull) sampleResume) =
      Inl (ApiError m (Some (js ''UNKNOWN_ERROR'')) None False)"
    using apiClient_analyzeResume_null_body [where fetch = "respond throttledNull",
        OF trim_sampleResume_nonempty respond_Resolves j]
    by blast
  have st: "status (throttledNull :: AnalysisResult ApiResponse Response) = 429"
    by (simp add: throttledNull_def)
  have "isRetryable (analyzeResume (respond throttledNull) sampleResume initial) = False"
    by (simp add: analyzeResume_fails [OF passes thrown])
  with st show ?thesis by blast
qed

subsection \<open>C4: the last operation after a call\<close>

text \<open>
  Claim C4.  For a text that passes the two checks: when the API client returns a result,
  \<open>analyzeResume\<close> stores it and \<open>lastOperation\<close> is none; when the API client throws,
  \<open>lastOperation\<close> holds \<open>analyze\<close> with the text, and \<open>isRetryable\<close> and the message are
  those of the error thrown.
\<close>

theorem analyzeResume_lastOperation:
  assumes "50 \<le> length (trim resumeText)"
  shows "(snd (apiClient_analyzeResume fetch resumeText) = Inr result \<longrightarrow>
            analysisResult (analyzeResume fetch resumeText s) = Some result \<and>
            lastOperation (analyzeResume fetch resumeText s) = None) \<and>
         (snd (apiClient_analyzeResume fetch resumeText) = Inl err \<longrightarrow>
            lastOperation (analyzeResume fetch resumeText s) = Some (analyze resumeText) \<and>
            isRetryable (analyzeResume fetch resumeText s) = error_isRetryable err \<and>
            error (analyzeResume fetch resumeText s) = Some (error_message err))"
  by (simp add: analyzeResume_succeeds [OF assms] analyzeResume_fails [OF assms])

text \<open>
  Claim C4, witness: one call answered with an analysis, one answered with status 503 and
  the code \<open>AI_SERVICE_UNAVAILABLE\<close>.
\<close>

theorem analyzeResume_lastOperation_witness:
  "50 \<le> length (trim sampleResume) \<and>
   snd (apiClient_analyzeResume (respond analysisOk) sampleResume) = Inr sampleAnalysis \<and>
   analysisResult (analyzeResume (respond analysisOk) sampleResume initial) =
     Some sampleAnalysis \<and>
   lastOperation (analyzeResume (respond analysisOk) sampleResume initial) = None \<and>
   snd (apiClient_analyzeResume (respond unavailable) sampleResume) =
     Inl (ApiError (js ''AI service is currently unavailable. Please try again later.'')
            (Some (js ''AI_SERVICE_UNAVAILABLE'')) (Some 503) True) \<and>
   lastOperation (analyzeResume (respond unavailable) sampleResume initial) =
     Some (analyze sampleResume) \<and>
   isRetryable (analyzeResume (respond unavailable) sampleResume initial) = True"
proof -
  have passes: "50 \<le> length (trim sampleResume)"
    by (simp add: length_trim_sampleResume)
  from analyzeResume_lastOperation [OF passes, where fetch = "respond analysisOk"
      and result = sampleAnalysis and s = initial, THEN conjunct1, rule_format,
      OF api_analysisOk]
  have good: "analysisResult (analyzeResume (respond analysisOk) sampleResume initial) =
       Some sampleAnalysis \<and>
     lastOperation (analyzeResume (respond analysisOk) sampleResume initial) = None" .
  from analyzeResume_lastOperation [OF passes, where fetch = "respond unavailable"
      and s = initial, THEN conjunct2, rule_format, OF api_unavailable]
  have bad: "lastOperation (analyzeResume (respond unavailable) sampleResume initial) =
       Some (analyze sampleResume) \<and>
     isRetryable (analyzeResume (respond unavailable) sampleResume initial) = True"
    by simp
  show ?thesis using passes good bad api_analysisOk api_unavailable by blast
qed

subsection \<open>C10: a failed call discards the stored result\<close>

text \<open>
  Claim C10.  When \<open>analyzeResume\<close> has passed its two checks and the API client throws,
  \<open>analysisResult\<close> is absent afterwards, whatever was stored before; when
  \<open>generateQuestions\<close> has passed its checks (a text that is not empty after trimming and
  an analysis result) and the API client throws, \<open>interviewQuestions\<close> is absent
  afterwards.  The catch blocks do so for every thrown value.
\<close>

theorem failed_operation_discards_result:
  "(50 \<le> length (trim resumeText) \<and>
    snd (apiClient_analyzeResume fetch resumeText) = Inl err \<longrightarrow>
      analysisResult (analyzeResume fetch resumeText s) = None) \<and>
   (trim resumeText \<noteq> [] \<and>
    snd (apiClient_generateQuestions fetchQ resumeText (Some (summary a, suggestions a))) =
      Inl errQ \<longrightarrow>
      interviewQuestions (generateQuestions fetchQ resumeText (Some a) s) = None) \<and>
   analysisResult (analyzeResume_settle (Inl thrownA) s) = None \<and>
   interviewQuestions (generateQuestions_settle (Inl thrownQ) s) = None"
  by (simp add: analyzeResume_fails generateQuestions_fails analyzeResume_settle_def
        generateQuestions_settle_def split: prod.splits)

text \<open>
  Claim C10, witness: a session that holds an analysis and questions; the analysis is
  run again and answered with status 503, the questions are generated again and answered
  with status 400.
\<close>

theorem failed_operation_discards_result_witness:
  "50 \<le> length (trim sampleResume) \<and>
   analysisResult analysed = Some sampleAnalysis \<and>
   snd (apiClient_analyzeResume (respond unavailable) sampleResume) =
     Inl (ApiError (js ''AI service is currently unavailable. Please try again later.'')
            (Some (js ''AI_SERVICE_UNAVAILABLE'')) (Some 503) True) \<and>
   analysisResult (analyzeResume (respond unavailable) sampleResume analysed) = None \<and>
   trim sampleResume \<noteq> [] \<and>
   interviewQuestions analysed = Some sampleQuestions \<and>
   snd (apiClient_generateQuestions (respond badRequest) sampleResume
          (Some (summary sampleAnalysis, suggestions sampleAnalysis))) =
     Inl (ApiError (js ''Invalid request. Please check your input.'')
            (Some (js ''BAD_REQUEST'')) (Some 400) False) \<and>
   interviewQuestions (generateQuestions (respond badRequest) sampleResume
                         (Some sampleAnalysis) analysed) = None"
proof -
  have passes: "50 \<le> length (trim sampleResume)"
    by (simp add: length_trim_sampleResume)
  have held: "analysisResult analysed = Some sampleAnalysis"
    "interviewQuestions analysed = Some sampleQuestions"
    by (simp_all add: analysed_def)
  note inst = failed_operation_discards_result [where resumeText = sampleResume
      and fetch = "respond unavailable" and fetchQ = "respond badRequest"
      and a = sampleAnalysis and s = analysed]
  from inst [THEN conjunct1, rule_format, OF conjI [OF passes api_unavailable]]
  have A: "analysisResult (analyzeResume (respond unavailable) sampleResume analysed) = None" .
  from inst [THEN conjunct2, THEN conjunct1, rule_format,
      OF conjI [OF trim_sampleResume_nonempty api_questions_badRequest]]
  have Q: "interviewQuestions (generateQuestions (respond badRequest) sampleResume
                         (Some sampleAnalysis) analysed) = None" .
  show ?thesis
    by (intro conjI)
       (rule passes held api_unavailable A trim_sampleResume_nonempty
          api_questions_badRequest Q)+
qed


section \<open>The API client's claims\<close>

subsection \<open>C5: the retryability of an \<open>ApiError\<close>\<close>




text \<open>
  A response with status 503 whose body is \<open>null\<close> gives an \<open>ApiError\<close> without status
  that is not retryable.
\<close>

lemma status_503_null_body_not_retryable:
  "\<exists>m. snd (apiClient_analyzeResume (respond unavailableNull) sampleResume) =
         Inl (ApiError m (Some (js ''UNKNOWN_ERROR'')) None False)"
proof -
  have j: "json (unavailableNull :: AnalysisResult ApiResponse Response) = JsonNull"
    by (simp add: unavailableNull_def)
  show ?thesis
    using apiClient_analyzeResume_null_body [where fetch = "respond unavailableNull",
        OF trim_sampleResume_nonempty respond_Resolves j] .
qed

subsection \<open>C6: success without data\<close>

text \<open>
  Claim C6, as the code has it.  When the response to \<open>analyzeResume\<close> or to
  \<open>generateQuestions\<close> has a status in 200..299 and an envelope that says
  \<open>success: true\<close> and has no \<open>data\<close>, the API client throws an \<open>ApiError\<close> with the
  message \<open>No data in response\<close>, the code \<open>NO_DATA\<close> and \<open>isRetryable = false\<close>, and
  returns no result.
\<close>

theorem success_without_data_in_ok_response:
  fixes responseA :: "AnalysisResult ApiResponse Response"
    and responseQ :: "QuestionsResult ApiResponse Response"
  assumes "trim resumeText \<noteq> []"
  shows "(fetchA (analyzeRequest resumeText) = Resolves responseA \<and>
          json responseA = Json dA \<and> ok responseA \<and> success dA \<and> data dA = None \<longrightarrow>
            snd (apiClient_analyzeResume fetchA resumeText) =
              Inl (ApiError (js ''No data in response'') (Some (js ''NO_DATA''))
                     (Some (status responseA)) False)) \<and>
         (fetchQ (questionsRequest resumeText a) = Resolves responseQ \<and>
          json responseQ = Json dQ \<and> ok responseQ \<and> success dQ \<and> data dQ = None \<longrightarrow>
            snd (apiClient_generateQuestions fetchQ resumeText
                   (Some (summary a, suggestions a))) =
              Inl (ApiError (js ''No data in response'') (Some (js ''NO_DATA''))
                     (Some (status responseQ)) False))"
proof (intro conjI impI; elim conjE)
  assume f: "fetchA (analyzeRequest resumeText) = Resolves responseA"
    and j: "json responseA = Json dA" and o: "ok responseA" "success dA" "data dA = None"
  show "snd (apiClient_analyzeResume fetchA resumeText) =
              Inl (ApiError (js ''No data in response'') (Some (js ''NO_DATA''))
                     (Some (status responseA)) False)"
    unfolding apiClient_analyzeResume_resolves [where fetch = fetchA, OF assms f]
    by (simp add: handleResponse_no_data [OF j o])
next
  assume f: "fetchQ (questionsRequest resumeText a) = Resolves responseQ"
    and j: "json responseQ = Json dQ" and o: "ok responseQ" "success dQ" "data dQ = None"
  show "snd (apiClient_generateQuestions fetchQ resumeText
                   (Some (summary a, suggestions a))) =
              Inl (ApiError (js ''No data in response'') (Some (js ''NO_DATA''))
                     (Some (status responseQ)) False)"
    unfolding apiClient_generateQuestions_resolves [where fetch = fetchQ, OF assms f]
    by (simp add: handleResponse_no_data [OF j o])
qed

text \<open>
  Claim C6, witness: both operations answered with status 200 and the envelope
  \<open>{success: true}\<close>.
\<close>

theorem success_without_data_in_ok_response_witness:
  "trim sampleResume \<noteq> [] \<and>
   ok (okWithoutData :: AnalysisResult ApiResponse Response) \<and>
   json (okWithoutData :: AnalysisResult ApiResponse Response) = Json successWithoutData \<and>
   success (successWithoutData :: AnalysisResult ApiResponse) \<and>
   data (successWithoutData :: AnalysisResult ApiResponse) = None \<and>
   snd (apiClient_analyzeResume (respond okWithoutData) sampleResume) =
     Inl (ApiError (js ''No data in response'') (Some (js ''NO_DATA'')) (Some 200) False) \<and>
   ok (okWithoutData :: QuestionsResult ApiResponse Response) \<and>
   json (okWithoutData :: QuestionsResult ApiResponse Response) = Json successWithoutData \<and>
   success (successWithoutData :: QuestionsResult ApiResponse) \<and>
   data (successWithoutData :: QuestionsResult ApiResponse) = None \<and>
   snd (apiClient_generateQuestions (respond okWithoutData) sampleResume
          (Some (summary sampleAnalysis, suggestions sampleAnalysis))) =
     Inl (ApiError (js ''No data in response'') (Some (js ''NO_DATA'')) (Some 200) False)"
proof -
  have o: "ok (okWithoutData :: 'a ApiResponse Response)"
    and j: "json (okWithoutData :: 'a ApiResponse Response) = Json successWithoutData"
    and st: "status (okWithoutData :: 'a ApiResponse Response) = 200"
    by (simp_all add: okWithoutData_def ok_def)
  have e: "success (successWithoutData :: 'a ApiResponse)"
    "data (successWithoutData :: 'a ApiResponse) = None"
    by (simp_all add: successWithoutData_def)
  note inst = success_without_data_in_ok_response [OF trim_sampleResume_nonempty,
      where fetchA = "respond okWithoutData" and responseA = okWithoutData
        and fetchQ = "respond okWithoutData" and responseQ = okWithoutData
        and a = sampleAnalysis]
  from inst [THEN conjunct1, rule_format,
      OF conjI [OF respond_Resolves conjI [OF j conjI [OF o conjI [OF e]]]]]
  have A: "snd (apiClient_analyzeResume (respond okWithoutData) sampleResume) =
     Inl (ApiError (js ''No data in response'') (Some (js ''NO_DATA'')) (Some 200) False)"
    unfolding st .
  from inst [THEN conjunct2, rule_format,
      OF conjI [OF respond_Resolves conjI [OF j conjI [OF o conjI [OF e]]]]]
  have Q: "snd (apiClient_generateQuestions (respond okWithoutData) sampleResume
          (Some (summary sampleAnalysis, suggestions sampleAnalysis))) =
     Inl (ApiError (js ''No data in response'') (Some (js ''NO_DATA'')) (Some 200) False)"
    unfolding st .
  show ?thesis
    by (intro conjI) (rule trim_sampleResume_nonempty o j e A Q)+
qed

text \<open>
  Claim C6 as stated fails: a response with status 503 whose envelope says
  \<open>success: true\<close> and has no \<open>data\<close> is handled by the branch for failed responses, and
  the \<open>ApiError\<close> thrown has another message and is retryable.
\<close>

theorem success_without_data_in_failed_response:
  "json (unavailableWithoutData :: AnalysisResult ApiResponse Response) =
     Json successWithoutData \<and>
   success (successWithoutData :: AnalysisResult ApiResponse) \<and>
   data (successWithoutData :: AnalysisResult ApiResponse) = None \<and>
   snd (apiClient_analyzeResume (respond unavailableWithoutData) sampleResume) =
     Inl (ApiError (js ''Request failed with status 503'') (Some (js ''UNKNOWN_ERROR''))
            (Some 503) True)"
proof -
  have j: "json (unavailableWithoutData :: AnalysisResult ApiResponse Response) =
     Json successWithoutData"
    by (simp add: unavailableWithoutData_def)
  have e: "success (successWithoutData :: AnalysisResult ApiResponse)"
    "data (successWithoutData :: AnalysisResult ApiResponse) = None"
    by (simp_all add: successWithoutData_def)
  have "handleResponse (unavailableWithoutData :: AnalysisResult ApiResponse Response) =
     Inl (ApiError (js ''Request failed with status 503'') (Some (js ''UNKNOWN_ERROR''))
            (Some 503) True)"
    by (simp add: handleResponse_def unavailableWithoutData_def successWithoutData_def ok_def
          Let_def orElse_def getUserFriendlyMessage_def errorMessages_def
          inheritedProperties_def nativeFunction_def isRetryableError_def
          retryableStatusCodes_def toString_nat.simps js_def)
  then have thrown:
    "snd (apiClient_analyzeResume (respond unavailableWithoutData) sampleResume) =
     Inl (ApiError (js ''Request failed with status 503'') (Some (js ''UNKNOWN_ERROR''))
            (Some 503) True)"
    unfolding apiClient_analyzeResume_resolves [where fetch = "respond unavailableWithoutData",
        OF trim_sampleResume_nonempty respond_Resolves]
    by simp
  show ?thesis using j e thrown by blast
qed


section \<open>The viewer's claims\<close>

subsection \<open>Helper lemmas\<close>

lemma clamp_inRange:
  "x \<noteq> NaN \<Longrightarrow> inRange (Math_min (Finite 3) (Math_max (Finite (1 / 2)) x))"
  by (cases x) auto

lemma clamp_NaN: "Math_min (Finite 3) (Math_max (Finite (1 / 2)) NaN) = NaN"
  by simp

lemma Math_hypot_nonneg [simp]: "0 \<le> Math_hypot a b"
  by (simp add: Math_hypot_def)

lemma Math_hypot_zero [simp]: "Math_hypot a b = 0 \<longleftrightarrow> a = 0 \<and> b = 0"
  by (simp add: Math_hypot_def add_nonneg_eq_0_iff)

lemma Math_hypot_axis [simp]: "Math_hypot a 0 = \<bar>a\<bar>"
  by (simp add: Math_hypot_def)

text \<open>
  Starting from a scale in range, the zoom buttons and the reset leave the scale in
  range; so does \<open>handleFitToWidth\<close> unless the container is 32 pixels wide and the
  canvas has width 0, and so does a pinch unless the reference distance and the current
  distance are both 0.
\<close>

lemma handleZoomIn_inRange: "inRange (scale s) \<Longrightarrow> inRange (scale (handleZoomIn s))"
  by (cases "scale s") (auto simp: handleZoomIn_def)

lemma handleZoomOut_inRange: "inRange (scale s) \<Longrightarrow> inRange (scale (handleZoomOut s))"
  by (cases "scale s") (auto simp: handleZoomOut_def js_sub_def)

lemma handleResetZoom_inRange: "inRange (scale (handleResetZoom s))"
  by (simp add: handleResetZoom_def)

lemma handleFitToWidth_inRange:
  assumes "inRange (scale s)" "\<not> (clientWidth = 32 \<and> width = 0)"
  shows "inRange (scale (handleFitToWidth (Some clientWidth) (Some width) s))"
proof -
  obtain k where k: "scale s = Finite k" "0.5 \<le> k"
    using assms(1) by (cases "scale s") auto
  have "js_div (Finite (real clientWidth - 32)) (js_div (Finite (real width)) (scale s)) \<noteq> NaN"
    using k assms(2) by auto
  from clamp_inRange [OF this] show ?thesis
    by (simp add: handleFitToWidth_def Let_def)
qed

lemma handleFitToWidth_NaN:
  "scale s = Finite k \<Longrightarrow> k \<noteq> 0 \<Longrightarrow> scale (handleFitToWidth (Some 32) (Some 0) s) = NaN"
  by (simp add: handleFitToWidth_def Let_def)

lemma handleFitToWidth_no_ref:
  "containerRef = None \<or> canvasRef = None \<Longrightarrow> handleFitToWidth containerRef canvasRef s = s"
  by (auto simp: handleFitToWidth_def split: option.splits)

lemma handleTouchMove_inRange:
  assumes "inRange (scale s)" "touchStartRef s = Some start" "0 \<le> distance start"
    and "distance start \<noteq> 0 \<or> clientX t1 \<noteq> clientX t2 \<or> clientY t1 \<noteq> clientY t2"
  shows "inRange (scale (handleTouchMove [t1, t2] s))"
proof -
  obtain k where k: "scale s = Finite k" "0.5 \<le> k"
    using assms(1) by (cases "scale s") auto
  define d where "d = Math_hypot (clientX t2 - clientX t1) (clientY t2 - clientY t1)"
  have d: "0 \<le> d" "distance start \<noteq> 0 \<or> d \<noteq> 0"
    using assms(4) by (auto simp: d_def)
  have "js_mul (scale s) (js_div (Finite d) (Finite (distance start))) \<noteq> NaN"
    using k d assms(3) by (auto simp: less_le)
  from clamp_inRange [OF this] show ?thesis
    using assms(2) by (simp add: handleTouchMove_def Let_def d_def)
qed

lemma parseInt_4: "parseInt (js ''4'') = Some 4"
  by (simp add: parseInt_def js_def isWhiteSpace_def isDigit_def digitValue_def)

lemma parseInt_0: "parseInt (js ''0'') = Some 0"
  by (simp add: parseInt_def js_def isWhiteSpace_def isDigit_def digitValue_def)

lemma toString_int_5: "toString_int 5 = js ''5''"
  by (simp add: toString_int_def toString_nat.simps js_def)

subsection \<open>C7: the scale stays in range\<close>

text \<open>
  Claim C7 fails on the code for one pinch.  Two touches at the same point set the
  reference distance to 0; a move event whose two touches coincide again computes
  \<open>0 / 0\<close>, which is \<open>NaN\<close>, and \<open>Math.min(3.0, Math.max(0.5, NaN))\<close> is \<open>NaN\<close>: the scale
  leaves the range 0.5 to 3.0 although it started at 1.0.
\<close>

theorem pinch_coincident_touches_NaN:
  "inRange (scale viewer0) \<and>
   scale (handleTouchMove [touchAt 120 240, touchAt 120 240]
            (handleTouchStart [touchAt 120 240, touchAt 120 240] viewer0)) = NaN \<and>
   \<not> inRange (scale (handleTouchMove [touchAt 120 240, touchAt 120 240]
                       (handleTouchStart [touchAt 120 240, touchAt 120 240] viewer0)))"
  by (simp add: viewer0_def touchAt_def handleTouchStart_def handleTouchMove_def Let_def)

subsection \<open>C8: the pinch gesture\<close>

text \<open>
  What the body of \<open>handleTouchMove\<close> computes: with a recorded distance that is not 0 and
  a finite scale, it multiplies the scale by the current distance over the recorded one,
  clamps the product to 0.5 and 3.0, and records the current distance.
\<close>

lemma handleTouchMove_scale:
  assumes "touchStartRef s = Some start" and "distance start \<noteq> 0"
    and "scale s = Finite k"
  shows "scale (handleTouchMove [b1, b2] s) =
           Finite (min 3 (max 0.5 (k *
             (Math_hypot (clientX b2 - clientX b1) (clientY b2 - clientY b1) /
              distance start))))"
    and "touchStartRef (handleTouchMove [b1, b2] s) =
           Some (start\<lparr>distance :=
                          Math_hypot (clientX b2 - clientX b1) (clientY b2 - clientY b1)\<rparr>)"
  using assms by (simp_all add: handleTouchMove_def Let_def)

lemma handleTouchStart_ref:
  "touchStartRef (handleTouchStart [a1, a2] s) =
     Some \<lparr>start_x = (clientX a1 + clientX a2) / 2,
           start_y = (clientY a1 + clientY a2) / 2,
           distance = Math_hypot (clientX a2 - clientX a1) (clientY a2 - clientY a1)\<rparr>"
  by (simp add: handleTouchStart_def Let_def)

text \<open>
  The document that has just been loaded shows the container, at scale 1.0, without the
  touch handlers: the effect ran once, under the loading view, and the load changed no
  \<open>scale\<close>.
\<close>

lemma freshlyLoaded_cells:
  "cells freshlyLoaded =
     \<lparr>numPages = 5, currentPage = 1, scale = Finite 1, pageInputValue = js ''1'',
      touchStartRef = None,
      toasts = [toast_success (js ''PDF loaded successfully'')]\<rparr>"
  by (simp add: freshlyLoaded_def loadPDF_def loadPDF_settle_def loadPDF_begin_def commit_def
        mount_def)

lemma freshlyLoaded_view:
  "containerRendered freshlyLoaded" "\<not> touchListening freshlyLoaded"
  by (simp_all add: freshlyLoaded_def loadPDF_def loadPDF_settle_def loadPDF_begin_def
        commit_def mount_def containerRendered_def)

text \<open>
  After a step of the zoom up and a step down again the scale is 1.0 as before, and the
  handlers are attached; a pinch that doubles the distance then gives 2.0, and one with
  coincident touches gives \<open>NaN\<close>.
\<close>

lemma zoomedBack_view:
  "scale (cells zoomedBack) = Finite 1" "touchListening zoomedBack"
  "\<not> isLoading zoomedBack" "pdfError zoomedBack = None"
  by (simp_all add: zoomedBack_def act_def commit_def handleZoomIn_def handleZoomOut_def
        js_sub_def freshlyLoaded_cells freshlyLoaded_view containerRendered_def
        freshlyLoaded_def loadPDF_def loadPDF_settle_def loadPDF_begin_def mount_def)

lemma zoomedBack_pinch_doubles:
  "scale (cells (touchEvent handleTouchMove [touchAt 50 300, touchAt 250 300]
                   (touchEvent handleTouchStart [touchAt 100 300, touchAt 200 300]
                      zoomedBack))) = Finite 2"
  by (simp add: touchEvent_def act_def commit_def zoomedBack_view handleTouchStart_def
        handleTouchMove_def Let_def touchAt_def containerRendered_def)

lemma zoomedBack_pinch_NaN:
  "scale (cells (touchEvent handleTouchMove [touchAt 120 240, touchAt 120 240]
                   (touchEvent handleTouchStart [touchAt 120 240, touchAt 120 240]
                      zoomedBack))) = NaN"
  by (simp add: touchEvent_def act_def commit_def zoomedBack_view handleTouchStart_def
        handleTouchMove_def Let_def touchAt_def containerRendered_def)

text \<open>
  Claim C8 fails on the code for the document that has just been loaded.  The effect that
  attaches the touch handlers ran under the loading view, where it returns at
  \<open>if (!container) return\<close>, and it runs again only when \<open>scale\<close> changes.  Two fingers
  that touch 100 pixels apart and move 200 pixels apart therefore leave the scale at 1.0,
  where the claim says 2.0, and record no distance.
\<close>

theorem pinch_on_loaded_document_ignored:
  "containerRendered freshlyLoaded \<and>
   scale (cells freshlyLoaded) = Finite 1 \<and>
   scale (cells (touchEvent handleTouchMove [touchAt 50 300, touchAt 250 300]
                   (touchEvent handleTouchStart [touchAt 100 300, touchAt 200 300]
                      freshlyLoaded))) = Finite 1 \<and>
   touchStartRef (cells (touchEvent handleTouchMove [touchAt 50 300, touchAt 250 300]
                   (touchEvent handleTouchStart [touchAt 100 300, touchAt 200 300]
                      freshlyLoaded))) = None"
  by (simp add: touchEvent_def freshlyLoaded_view freshlyLoaded_cells)

subsection \<open>C9: the page number field\<close>

text \<open>
  Claim C9.  On a document whose current page is between 1 and the page count, submitting
  the page number field with any text \<open>v\<close>: when \<open>parseInt\<close> reads a number \<open>n\<close> from \<open>v\<close>
  with \<open>1 \<le> n \<le> numPages\<close> the current page becomes \<open>n\<close>; when it reads no number, or
  one below 1 or above the page count, the current page is unchanged and an error toast
  is raised.  In all cases, and after the previous and next buttons, the current page is
  between 1 and the page count.
\<close>

theorem handlePageInputSubmit_page_range:
  assumes "1 \<le> currentPage s" and "currentPage s \<le> numPages s"
  shows "(\<forall>n. parseInt v = Some n \<and> 1 \<le> n \<and> n \<le> numPages s \<longrightarrow>
            currentPage (handlePageInputSubmit (handlePageInputChange v s)) = n) \<and>
         ((parseInt v = None \<or> (\<exists>n. parseInt v = Some n \<and> (n < 1 \<or> numPages s < n))) \<longrightarrow>
            currentPage (handlePageInputSubmit (handlePageInputChange v s)) = currentPage s \<and>
            toasts (handlePageInputSubmit (handlePageInputChange v s)) = toasts s @
              [toast_error (js ''Invalid page number. Must be between 1 and '' @
                            toString_int (numPages s))]) \<and>
         1 \<le> currentPage (handlePageInputSubmit (handlePageInputChange v s)) \<and>
         currentPage (handlePageInputSubmit (handlePageInputChange v s)) \<le>
           numPages (handlePageInputSubmit (handlePageInputChange v s)) \<and>
         1 \<le> currentPage (handlePreviousPage s) \<and>
         currentPage (handlePreviousPage s) \<le> numPages (handlePreviousPage s) \<and>
         1 \<le> currentPage (handleNextPage s) \<and>
         currentPage (handleNextPage s) \<le> numPages (handleNextPage s)"
  using assms
  by (cases "parseInt v")
     (auto simp: handlePageInputSubmit_def handlePageInputChange_def
        handlePreviousPage_def handleNextPage_def Let_def)

text \<open>
  Claim C9, witness: a document of 5 pages on page 2.  Submitting \<open>4\<close> goes to page 4;
  submitting \<open>0\<close> leaves page 2 and raises the error toast.
\<close>

theorem handlePageInputSubmit_page_range_witness:
  "1 \<le> currentPage viewer0 \<and> currentPage viewer0 \<le> numPages viewer0 \<and>
   parseInt (js ''4'') = Some 4 \<and> (4 :: int) \<le> numPages viewer0 \<and>
   currentPage (handlePageInputSubmit (handlePageInputChange (js ''4'') viewer0)) = 4 \<and>
   parseInt (js ''0'') = Some 0 \<and>
   currentPage (handlePageInputSubmit (handlePageInputChange (js ''0'') viewer0)) = 2 \<and>
   toasts (handlePageInputSubmit (handlePageInputChange (js ''0'') viewer0)) =
     [toast_error (js ''Invalid page number. Must be between 1 and 5'')]"
proof -
  have inv: "1 \<le> currentPage viewer0" "currentPage viewer0 \<le> numPages viewer0"
    by (simp_all add: viewer0_def)
  have pages: "numPages viewer0 = 5" "currentPage viewer0 = 2" "toasts viewer0 = []"
    by (simp_all add: viewer0_def)
  have four: "(4 :: int) \<le> numPages viewer0"
    by (simp add: pages)
  from handlePageInputSubmit_page_range [OF inv, of "js ''4''"] parseInt_4 four
  have jump: "currentPage (handlePageInputSubmit (handlePageInputChange (js ''4'') viewer0)) = 4"
    by simp
  from handlePageInputSubmit_page_range [OF inv, of "js ''0''"] parseInt_0
  have "currentPage (handlePageInputSubmit (handlePageInputChange (js ''0'') viewer0)) =
          currentPage viewer0 \<and>
        toasts (handlePageInputSubmit (handlePageInputChange (js ''0'') viewer0)) =
          toasts viewer0 @
            [toast_error (js ''Invalid page number. Must be between 1 and '' @
                          toString_int (numPages viewer0))]"
    by simp
  then have stay:
    "currentPage (handlePageInputSubmit (handlePageInputChange (js ''0'') viewer0)) = 2"
    "toasts (handlePageInputSubmit (handlePageInputChange (js ''0'') viewer0)) =
       [toast_error (js ''Invalid page number. Must be between 1 and 5'')]"
    by (simp_all add: pages toString_int_5 js_def)
  show ?thesis
    by (intro conjI) (rule inv parseInt_4 four jump parseInt_0 stay)+
qed

end
